theory Spec2Isabelle
  imports Main "HOL-Library.AList"
begin

section \<open>JavaScript values\<close>

text \<open>
  The bootstrap file \<^verbatim>\<open>services/cubejs/index.js\<close> works on untyped JavaScript values:
  security contexts, connection parameters, queries and access configurations are plain
  objects that arrive from a token, a store or a request. The model keeps them untyped.

  \<^item> Numbers are the integers (\<open>Num\<close>) and \<open>NaN\<close>; fractions and infinities are outside
    the model. An integer prints as JavaScript prints a number: in plain decimal below
    \<open>10^21\<close> in magnitude, in exponent form from there on. The digits printed are the
    exact ones, which are JavaScript's for an integer up to \<open>2^53\<close> in magnitude and for
    one of at most 15 significant digits.
  \<^item> Strings are byte lists; on ASCII text an index is a UTF-16 code unit.
  \<^item> An object is plain data, as \<^verbatim>\<open>JSON.parse\<close> gives it: the list of its own enumerable
    properties in insertion order, each key once (keys that are array indices, which
    JavaScript lists first, aside), with \<^verbatim>\<open>Object.prototype\<close> for prototype and no own
    \<^verbatim>\<open>toString\<close> or \<^verbatim>\<open>valueOf\<close>. The members it inherits (and the \<^verbatim>\<open>length\<close> of an array or
    a string) are not modelled, and object identity is not: two objects are never the
    same reference.
\<close>

datatype jsval =
    Undefined
  | Null
  | Bool bool
  | Num int
  | NaN
  | Str string
  | Arr "jsval list"
  | Obj "(string \<times> jsval) list"

text \<open>
  A thrown value is an error object (its \<^verbatim>\<open>name\<close> and its \<^verbatim>\<open>message\<close>) or any other
  value (\<^verbatim>\<open>throw securityError\<close>). A function that can throw returns \<open>exn + 'a\<close>; the
  rejection of an \<^verbatim>\<open>async\<close> function's promise is the same \<open>Inl\<close>.
\<close>

datatype exn = ErrorObj string string | Thrown jsval

abbreviation Error :: "string \<Rightarrow> exn" where
  "Error \<equiv> ErrorObj ''Error''"

abbreviation TypeError :: "string \<Rightarrow> exn" where
  "TypeError \<equiv> ErrorObj ''TypeError''"

abbreviation ReferenceError :: "string \<Rightarrow> exn" where
  "ReferenceError \<equiv> ErrorObj ''ReferenceError''"

text \<open>\<^verbatim>\<open>!v\<close>: the falsy values are undefined, null, false, zero, NaN and the empty string.\<close>

fun falsy :: "jsval \<Rightarrow> bool" where
  "falsy Undefined = True"
| "falsy Null = True"
| "falsy (Bool b) = (\<not> b)"
| "falsy (Num n) = (n = 0)"
| "falsy NaN = True"
| "falsy (Str s) = (s = [])"
| "falsy (Arr xs) = False"
| "falsy (Obj kvs) = False"

definition truthy :: "jsval \<Rightarrow> bool" where
  "truthy v = (\<not> falsy v)"

fun nullish :: "jsval \<Rightarrow> bool" where
  "nullish Undefined = True"
| "nullish Null = True"
| "nullish v = False"

subsection \<open>Printing\<close>

definition digit_char :: "nat \<Rightarrow> char" where
  "digit_char d = ''0123456789'' ! d"

fun show_nat :: "nat \<Rightarrow> string" where
  "show_nat n = (if n < 10 then [digit_char n] else show_nat (n div 10) @ [digit_char (n mod 10)])"

declare show_nat.simps [simp del]

text \<open>
  The exponent form, from digits: the first digit, the further digits up to the last
  that is not zero after a point, and the exponent.
\<close>

definition show_exponent :: "string \<Rightarrow> string" where
  "show_exponent ds =
     (let significant = rev (dropWhile (\<lambda>c. c = CHR ''0'') (rev ds))
      in take 1 significant
         @ (if 1 < length significant then ''.'' @ drop 1 significant else [])
         @ ''e+'' @ show_nat (length ds - 1))"

text \<open>A number of up to 21 digits prints in plain decimal, a longer one in exponent form.\<close>

definition show_int :: "int \<Rightarrow> string" where
  "show_int i =
     (let ds = show_nat (nat \<bar>i\<bar>);
          s = (if length ds \<le> 21 then ds else show_exponent ds)
      in if i < 0 then CHR ''-'' # s else s)"

text \<open>\<^verbatim>\<open>Array.prototype.join\<close> on strings already converted.\<close>

fun join_strings :: "string \<Rightarrow> string list \<Rightarrow> string" where
  "join_strings sep [] = []"
| "join_strings sep [s] = s"
| "join_strings sep (s # t # ss) = s @ sep @ join_strings sep (t # ss)"

text \<open>
  \<^verbatim>\<open>String(v)\<close>, the conversion a template literal, \<^verbatim>\<open>join\<close>, a property key and
  \<^verbatim>\<open>new Error(v)\<close> apply. An array joins its elements with a comma, printing undefined
  and null elements as the empty string; a plain object prints as \<^verbatim>\<open>[object Object]\<close>.
\<close>

fun ToString :: "jsval \<Rightarrow> string" where
  "ToString Undefined = ''undefined''"
| "ToString Null = ''null''"
| "ToString (Bool b) = (if b then ''true'' else ''false'')"
| "ToString (Num n) = show_int n"
| "ToString NaN = ''NaN''"
| "ToString (Str s) = s"
| "ToString (Arr xs) = join_strings '','' (map (\<lambda>x. if nullish x then [] else ToString x) xs)"
| "ToString (Obj kvs) = ''[object Object]''"

definition join :: "string \<Rightarrow> jsval list \<Rightarrow> string" where
  "join sep xs = join_strings sep (map (\<lambda>x. if nullish x then [] else ToString x) xs)"

subsection \<open>Properties\<close>

text \<open>
  The own enumerable properties of a value, as \<^verbatim>\<open>Object.entries\<close> lists them: the
  properties of an object, the indices of an array or of a string, nothing otherwise.
\<close>

fun entries :: "jsval \<Rightarrow> (string \<times> jsval) list" where
  "entries (Obj kvs) = kvs"
| "entries (Arr xs) = zip (map show_nat [0..<length xs]) xs"
| "entries (Str s) = zip (map show_nat [0..<length s]) (map (\<lambda>c. Str [c]) s)"
| "entries v = []"

definition Object_keys :: "jsval \<Rightarrow> string list" where
  "Object_keys v = map fst (entries v)"

definition Object_values :: "jsval \<Rightarrow> jsval list" where
  "Object_values v = map snd (entries v)"

text \<open>
  \<^verbatim>\<open>v?.k\<close>, and \<^verbatim>\<open>v.k\<close> or \<^verbatim>\<open>v[k]\<close> on a value that is not undefined or null: the
  property when the value has it, undefined otherwise.
\<close>

definition get :: "jsval \<Rightarrow> string \<Rightarrow> jsval" where
  "get v k = (case map_of (entries v) k of Some x \<Rightarrow> x | None \<Rightarrow> Undefined)"

text \<open>\<^verbatim>\<open>{...kvs, k: v}\<close> and \<^verbatim>\<open>obj[k] = v\<close>: an existing key keeps its place.\<close>

definition set_prop :: "string \<Rightarrow> jsval \<Rightarrow> (string \<times> jsval) list \<Rightarrow> (string \<times> jsval) list" where
  "set_prop k v kvs = AList.update k v kvs"

text \<open>\<^verbatim>\<open>{...a, ...b}\<close>: the properties of \<open>b\<close> written over those of \<open>a\<close>, in order.\<close>

definition spread_into :: "(string \<times> jsval) list \<Rightarrow> jsval \<Rightarrow> (string \<times> jsval) list" where
  "spread_into kvs b = fold (\<lambda>(k, v) res. set_prop k v res) (entries b) kvs"

subsection \<open>Objects with a prototype\<close>

text \<open>
  The values above are plain data. One object of the file is built by assignment, the
  \<^verbatim>\<open>dbConfig\<close> of \<^verbatim>\<open>driverFactory\<close>, and an assignment to the key \<^verbatim>\<open>__proto__\<close> of an object
  with no own property of that name calls the setter of \<^verbatim>\<open>Object.prototype\<close>: it makes
  the value the prototype of the object when the value is an object or null, does
  nothing otherwise, and creates no own property. (An object whose prototype is null
  no longer inherits the setter.) A \<open>config\<close> is such an object: its own properties and
  the prototype it was given, if any.
\<close>

datatype config = Config "(string \<times> jsval) list" "jsval option"

abbreviation plain :: "(string \<times> jsval) list \<Rightarrow> config" where
  "plain kvs \<equiv> Config kvs None"

text \<open>The own properties, which \<^verbatim>\<open>{...dbConfig}\<close> copies.\<close>

fun own_props :: "config \<Rightarrow> (string \<times> jsval) list" where
  "own_props (Config kvs p) = kvs"

text \<open>\<^verbatim>\<open>dbConfig.k\<close> and \<^verbatim>\<open>dbConfig?.k\<close>: an own property, or else one of the prototype.\<close>

fun read_prop :: "config \<Rightarrow> string \<Rightarrow> jsval" where
  "read_prop (Config kvs p) k =
     (case map_of kvs k of
        Some x \<Rightarrow> x
      | None \<Rightarrow> (case p of Some q \<Rightarrow> get q k | None \<Rightarrow> Undefined))"

fun is_object :: "jsval \<Rightarrow> bool" where
  "is_object (Obj kvs) = True"
| "is_object (Arr xs) = True"
| "is_object v = False"

text \<open>\<^verbatim>\<open>obj[k] = v\<close> and \<^verbatim>\<open>obj.k = v\<close>.\<close>

fun assign :: "string \<Rightarrow> jsval \<Rightarrow> config \<Rightarrow> config" where
  "assign k v (Config kvs p) =
     (if k = ''__proto__'' \<and> map_of kvs k = None \<and> p \<noteq> Some Null
      then (if is_object v \<or> v = Null then Config kvs (Some v) else Config kvs p)
      else Config (set_prop k v kvs) p)"

subsection \<open>Numbers read from strings\<close>

text \<open>
  \<^verbatim>\<open>parseInt(v)\<close> with no radix: the string of \<open>v\<close>, leading white space dropped, an
  optional sign, an optional \<^verbatim>\<open>0x\<close> prefix, then the longest run of digits of the radix;
  NaN when that run is empty. (White space is the ASCII white space.)
\<close>

definition is_space :: "char \<Rightarrow> bool" where
  "is_space c = (c \<in> set [CHR '' '', CHR 0x09, CHR 0x0A, CHR 0x0B, CHR 0x0C, CHR 0x0D])"

definition digit_value :: "char \<Rightarrow> nat" where
  "digit_value c =
     (let n = (of_char c :: nat) in
      if 48 \<le> n \<and> n \<le> 57 then n - 48
      else if 97 \<le> n \<and> n \<le> 122 then n - 87
      else if 65 \<le> n \<and> n \<le> 90 then n - 55
      else 36)"

definition parseInt :: "jsval \<Rightarrow> jsval" where
  "parseInt v =
     (let t = dropWhile is_space (ToString v);
          neg = (take 1 t = ''-'');
          u = (if take 1 t = ''-'' \<or> take 1 t = ''+'' then drop 1 t else t);
          hex = (take 2 u = ''0x'' \<or> take 2 u = ''0X'');
          radix = (if hex then 16 else 10);
          w = (if hex then drop 2 u else u);
          ds = takeWhile (\<lambda>c. digit_value c < radix) w
      in if ds = [] then NaN
         else Num ((if neg then - 1 else 1) * int (foldl (\<lambda>a c. a * radix + digit_value c) 0 ds)))"

section \<open>The driver factory\<close>

text \<open>
  What \<^verbatim>\<open>driverFactory\<close> returns: the handle of \<^verbatim>\<open>driverError\<close>, whose \<^verbatim>\<open>tablesSchema\<close> and
  \<^verbatim>\<open>testConnection\<close> both throw an \<^verbatim>\<open>Error\<close> with the carried message, or a driver: the
  module loaded, the path of the class constructed in it and the configuration passed to
  the constructor.
\<close>

datatype driver_handle = Failed string | Driver string "string list" config

text \<open>
  What the engine and the packages around the file provide: \<^verbatim>\<open>JSON.parse\<close>, the
  conversion of a string to a number (\<^verbatim>\<open>Number(s)\<close>, which comparisons apply), the
  table \<^verbatim>\<open>DriverDependencies\<close> of the server core (a driver package per type tag,
  undefined for a tag it does not list), the dynamic \<^verbatim>\<open>import\<close> of a package by its
  specifier, which gives the loaded module or rejects, and the construction
  \<^verbatim>\<open>new driverModule.path(dbConfig)\<close> of a class of a loaded module, which returns or
  throws (the member is missing or no constructor, or the constructor itself throws).
\<close>

record runtime =
  JSON_parse :: "string \<Rightarrow> exn + jsval"
  StringToNumber :: "string \<Rightarrow> jsval"
  DriverDependencies :: "string \<Rightarrow> jsval"
  import_module :: "string \<Rightarrow> exn + string"
  construct :: "string \<Rightarrow> string list \<Rightarrow> config \<Rightarrow> exn option"

text \<open>
  \<^verbatim>\<open>Number(v)\<close>. An array or a plain object is first converted to its string.
\<close>

fun ToNumber :: "runtime \<Rightarrow> jsval \<Rightarrow> jsval" where
  "ToNumber rt Undefined = NaN"
| "ToNumber rt Null = Num 0"
| "ToNumber rt (Bool b) = (if b then Num 1 else Num 0)"
| "ToNumber rt (Num n) = Num n"
| "ToNumber rt NaN = NaN"
| "ToNumber rt (Str s) = StringToNumber rt s"
| "ToNumber rt (Arr xs) = StringToNumber rt (ToString (Arr xs))"
| "ToNumber rt (Obj kvs) = StringToNumber rt (ToString (Obj kvs))"

text \<open>
  \<^verbatim>\<open>v >= k\<close> and \<^verbatim>\<open>v < k\<close> against a number \<open>k\<close>: the value is converted to a number,
  and a comparison with NaN is false.
\<close>

definition ge_number :: "runtime \<Rightarrow> jsval \<Rightarrow> int \<Rightarrow> bool" where
  "ge_number rt v k = (case ToNumber rt v of Num n \<Rightarrow> k \<le> n | _ \<Rightarrow> False)"

definition lt_number :: "runtime \<Rightarrow> jsval \<Rightarrow> int \<Rightarrow> bool" where
  "lt_number rt v k = (case ToNumber rt v of Num n \<Rightarrow> n < k | _ \<Rightarrow> False)"

text \<open>
  \<^verbatim>\<open>driverError(err)\<close>: the message each operation of the handle throws is that of
  \<^verbatim>\<open>new Error(err?.message || err)\<close>. An error object with an empty message prints as its
  name.
\<close>

fun driverError :: "exn \<Rightarrow> driver_handle" where
  "driverError (ErrorObj name message) = Failed (if message = [] then name else message)"
| "driverError (Thrown err) =
     (let m = get err ''message'';
          x = (if truthy m then m else err)
      in Failed (if x = Undefined then [] else ToString x))"

text \<open>Lines 39-51: \<^verbatim>\<open>addHttpPrefix\<close> and \<^verbatim>\<open>makeUrl\<close>. \<^verbatim>\<open>host.startsWith\<close> needs a string.\<close>

definition startsWith :: "string \<Rightarrow> string \<Rightarrow> bool" where
  "startsWith s p = (take (length p) s = p)"

fun addHttpPrefix :: "jsval \<Rightarrow> exn + string" where
  "addHttpPrefix (Str host) =
     (if \<not> startsWith host ''http://'' \<and> \<not> startsWith host ''https://''
      then Inr (''http://'' @ host) else Inr host)"
| "addHttpPrefix Undefined =
     Inl (TypeError ''Cannot read properties of undefined (reading startsWith)'')"
| "addHttpPrefix Null =
     Inl (TypeError ''Cannot read properties of null (reading startsWith)'')"
| "addHttpPrefix host = Inl (TypeError ''host.startsWith is not a function'')"

definition makeUrl :: "jsval \<Rightarrow> jsval \<Rightarrow> exn + string" where
  "makeUrl raw_host port =
     (case addHttpPrefix raw_host of
        Inl e \<Rightarrow> Inl e
      | Inr host \<Rightarrow> Inr (join '':'' [Str host, port]))"

text \<open>Lines 96-101: \<^verbatim>\<open>connParamValid\<close>.\<close>

definition connParamValid :: "runtime \<Rightarrow> jsval \<Rightarrow> exn + unit" where
  "connParamValid rt port =
     (let portValidation = (ge_number rt port 0 \<and> lt_number rt port 65536)
      in if \<not> portValidation
         then Inl (Error (''Port should be >= 0 and < 65536. Received '' @ ToString port @ ''.''))
         else Inr ())"

text \<open>
  Lines 125-139: the parameters as a mapping. A string is parsed, an object (\<^verbatim>\<open>typeof\<close>
  gives \<^verbatim>\<open>object\<close> for an array and for null too) is taken as it is, anything else is
  refused.
\<close>

definition parse_dbParams :: "runtime \<Rightarrow> jsval \<Rightarrow> driver_handle + jsval" where
  "parse_dbParams rt dbParams =
     (case dbParams of
        Str s \<Rightarrow> (case JSON_parse rt s of Inl err \<Rightarrow> Inl (driverError err) | Inr v \<Rightarrow> Inr v)
      | Obj kvs \<Rightarrow> Inr dbParams
      | Arr xs \<Rightarrow> Inr dbParams
      | Null \<Rightarrow> Inr dbParams
      | _ \<Rightarrow> Inl (driverError (Thrown (Obj
            [(''message'', Str ''Invalid dbParams type: expected a string or an object'')]))))"

text \<open>
  Lines 141-144: the keys of the parsed mapping (of \<^verbatim>\<open>{}\<close> when it is falsy) whose
  value is truthy, assigned one by one (\<^verbatim>\<open>res[key] = parsedDbParams[key]\<close>) to a fresh
  object.
\<close>

definition strip_falsy :: "jsval \<Rightarrow> config" where
  "strip_falsy parsedDbParams =
     fold (\<lambda>key res. assign key (get parsedDbParams key) res)
       (filter (\<lambda>key. truthy (get parsedDbParams key))
          (Object_keys (if falsy parsedDbParams then Obj [] else parsedDbParams)))
       (plain [])"

text \<open>
  Lines 146-156: the port check, only for a truthy port of the stripped configuration,
  then the error of the security context; whatever is thrown becomes the fail-closed
  handle.
\<close>

definition validate :: "runtime \<Rightarrow> config \<Rightarrow> jsval \<Rightarrow> driver_handle option" where
  "validate rt dbConfig securityError =
     (case (if truthy (read_prop dbConfig ''port'')
            then connParamValid rt (read_prop dbConfig ''port'') else Inr ()) of
        Inl err \<Rightarrow> Some (driverError err)
      | Inr u \<Rightarrow>
          if truthy securityError then Some (driverError (Thrown securityError)) else None)"

subsection \<open>The switch over the type tag (lines 158-246)\<close>

text \<open>
  A case of the switch returns the handle of an error (\<open>Inr (Inl h)\<close>), goes on with the
  new configuration (\<open>Inr (Inr cfg)\<close>), or throws outside every \<^verbatim>\<open>try\<close> (\<open>Inl e\<close>). An
  object literal \<^verbatim>\<open>{...dbConfig, k: v}\<close> is a new plain object with the own properties of
  \<^verbatim>\<open>dbConfig\<close>; an assignment \<^verbatim>\<open>dbConfig.k = v\<close> changes the object itself.
\<close>

type_synonym step = "exn + (driver_handle + config)"

definition bigquery_case :: "runtime \<Rightarrow> config \<Rightarrow> step" where
  "bigquery_case rt dbConfig =
     (case JSON_parse rt (ToString (read_prop dbConfig ''keyFile'')) of
        Inl err \<Rightarrow> Inr (Inl (driverError err))
      | Inr keyFile \<Rightarrow>
          Inr (Inr (plain (set_prop ''credentials'' (Obj (entries keyFile)) (own_props dbConfig)))))"

text \<open>
  The file neither declares nor imports \<^verbatim>\<open>MSSQL_DEFAULT_PORT\<close>: in a module, reading it
  throws a ReferenceError. It is read when \<^verbatim>\<open>parseInt(dbConfig.port)\<close> is falsy.
\<close>

definition MSSQL_DEFAULT_PORT :: "exn + jsval" where
  "MSSQL_DEFAULT_PORT = Inl (ReferenceError ''MSSQL_DEFAULT_PORT is not defined'')"

definition mssql_case :: "config \<Rightarrow> step" where
  "mssql_case dbConfig =
     (case (if truthy (parseInt (read_prop dbConfig ''port''))
            then Inr (parseInt (read_prop dbConfig ''port'')) else MSSQL_DEFAULT_PORT) of
        Inl e \<Rightarrow> Inl e
      | Inr port \<Rightarrow>
          Inr (Inr (plain (set_prop ''port'' port
                     (set_prop ''server'' (read_prop dbConfig ''host'') (own_props dbConfig))))))"

definition clickhouse_case :: "config \<Rightarrow> step" where
  "clickhouse_case dbConfig =
     (let auth = join '':''
            (filter truthy [read_prop dbConfig ''user'', read_prop dbConfig ''password''])
      in Inr (Inr (plain
        [(''host'', read_prop dbConfig ''host''),
         (''port'', read_prop dbConfig ''port''),
         (''auth'', Str auth),
         (''protocol'', Str (if truthy (read_prop dbConfig ''ssl'') then ''https:'' else ''http:'')),
         (''queryOptions'', Obj
            [(''database'',
              if truthy (read_prop dbConfig ''database'') then read_prop dbConfig ''database''
              else Str ''default'')])])))"

definition athena_case :: "config \<Rightarrow> step" where
  "athena_case dbConfig =
     Inr (Inr (plain
       (set_prop ''region'' (read_prop dbConfig ''awsRegion'')
       (set_prop ''S3OutputLocation'' (read_prop dbConfig ''awsS3OutputLocation'')
       (set_prop ''secretAccessKey'' (read_prop dbConfig ''awsSecret'')
       (set_prop ''accessKeyId'' (read_prop dbConfig ''awsKey'') (own_props dbConfig)))))))"

text \<open>Lines 203-221, the statements of the elasticsearch case itself.\<close>

definition elasticsearch_config :: "config \<Rightarrow> config" where
  "elasticsearch_config dbConfig =
     (let c1 = plain (set_prop ''auth''
                 (Obj [(''username'', read_prop dbConfig ''username''),
                       (''password'', read_prop dbConfig ''password'')])
               (set_prop ''url'' (read_prop dbConfig ''url'')
               (set_prop ''queryFormat'' (Str ''json'') (own_props dbConfig))))
      in if truthy (read_prop c1 ''apiId'') \<and> truthy (read_prop c1 ''apiKey'')
         then assign ''auth''
                (Obj (set_prop ''apiKey''
                        (Obj [(''id'', read_prop c1 ''apiId''),
                              (''api_key'', read_prop c1 ''apiKey'')])
                        (entries (read_prop c1 ''auth''))))
                c1
         else c1)"

text \<open>Lines 223-229, the statements of the snowflake case.\<close>

definition snowflake_config :: "config \<Rightarrow> config" where
  "snowflake_config dbConfig =
     (let account = join ''-'' [read_prop dbConfig ''orgId'', read_prop dbConfig ''accountId'']
      in plain (set_prop ''account'' (Str account) (own_props dbConfig)))"

text \<open>
  The elasticsearch case has no \<^verbatim>\<open>break\<close>: control falls through into the statements of
  the snowflake case, whose \<^verbatim>\<open>break\<close> ends both.
\<close>

definition elasticsearch_case :: "config \<Rightarrow> step" where
  "elasticsearch_case dbConfig = Inr (Inr (snowflake_config (elasticsearch_config dbConfig)))"

definition snowflake_case :: "config \<Rightarrow> step" where
  "snowflake_case dbConfig = Inr (Inr (snowflake_config dbConfig))"

text \<open>The druid and the ksql case are the same statement.\<close>

definition url_case :: "config \<Rightarrow> step" where
  "url_case dbConfig =
     (case makeUrl (read_prop dbConfig ''host'') (read_prop dbConfig ''port'') of
        Inl e \<Rightarrow> Inl e
      | Inr url \<Rightarrow> Inr (Inr (assign ''url'' (Str url) dbConfig)))"

definition firebolt_case :: "config \<Rightarrow> step" where
  "firebolt_case dbConfig =
     Inr (Inr (assign ''connection''
       (Obj [(''database'', read_prop dbConfig ''database''),
             (''username'', read_prop dbConfig ''username''),
             (''password'', read_prop dbConfig ''password''),
             (''engineName'', read_prop dbConfig ''engineName'')])
       dbConfig))"

definition typeSpecific :: "runtime \<Rightarrow> jsval \<Rightarrow> config \<Rightarrow> step" where
  "typeSpecific rt dbType dbConfig =
     (if dbType = Str ''bigquery'' then bigquery_case rt dbConfig
      else if dbType = Str ''mssql'' then mssql_case dbConfig
      else if dbType = Str ''clickhouse'' then clickhouse_case dbConfig
      else if dbType = Str ''athena'' then athena_case dbConfig
      else if dbType = Str ''elasticsearch'' then elasticsearch_case dbConfig
      else if dbType = Str ''snowflake'' then snowflake_case dbConfig
      else if dbType = Str ''druid'' then url_case dbConfig
      else if dbType = Str ''ksql'' then url_case dbConfig
      else if dbType = Str ''firebolt'' then firebolt_case dbConfig
      else Inr (Inr dbConfig))"

text \<open>
  \<^verbatim>\<open>new driverModule.path(dbConfig)\<close>: the driver, or what the construction throws.
\<close>

definition new_driver :: "runtime \<Rightarrow> string \<Rightarrow> string list \<Rightarrow> config \<Rightarrow> exn + driver_handle" where
  "new_driver rt driverModule path dbConfig =
     (case construct rt driverModule path dbConfig of
        Some e \<Rightarrow> Inl e
      | None \<Rightarrow> Inr (Driver driverModule path dbConfig))"

text \<open>
  Lines 248-266. Inside the \<^verbatim>\<open>try\<close>: the package of the type tag is looked up and
  imported (a rejected import, that of an unlisted tag, whose specifier is undefined,
  among them, becomes the fail-closed handle), the module is replaced by its \<^verbatim>\<open>default\<close>
  for druid, and for databricks-jdbc its \<^verbatim>\<open>DatabricksDriver\<close> is constructed and
  returned. After the \<^verbatim>\<open>try\<close>, outside it: \<^verbatim>\<open>default\<close> of the module is constructed, and
  what the construction throws leaves the factory.
\<close>

definition loadDriver :: "runtime \<Rightarrow> jsval \<Rightarrow> config \<Rightarrow> exn + driver_handle" where
  "loadDriver rt dbType dbConfig =
     (case import_module rt (ToString (DriverDependencies rt (ToString dbType))) of
        Inl err \<Rightarrow> Inr (driverError err)
      | Inr driverModule \<Rightarrow>
          (let unwrapped = (if dbType = Str ''druid'' then [''default''] else [])
           in if dbType = Str ''databricks-jdbc''
              then (case new_driver rt driverModule (unwrapped @ [''DatabricksDriver'']) dbConfig of
                      Inl err \<Rightarrow> Inr (driverError err)
                    | Inr driver \<Rightarrow> Inr driver)
              else new_driver rt driverModule (unwrapped @ [''default'']) dbConfig))"

text \<open>Lines 116-267: \<^verbatim>\<open>driverFactory\<close>, from the security context of its argument.\<close>

definition driverFactory :: "runtime \<Rightarrow> jsval \<Rightarrow> exn + driver_handle" where
  "driverFactory rt securityContext =
     (let sc = (if falsy securityContext then Obj [] else securityContext);
          dbParams = get sc ''dbParams'';
          dbType = get sc ''dbType'';
          securityError = get sc ''error''
      in if falsy dbParams \<or> length (Object_keys dbParams) = 0
         then Inr (driverError (Thrown (Obj
                [(''message'', Str ''Datasource credentials not found or incorrect'')])))
         else
           (case parse_dbParams rt dbParams of
              Inl h \<Rightarrow> Inr h
            | Inr parsedDbParams \<Rightarrow>
                (let dbConfig = strip_falsy parsedDbParams in
                 case validate rt dbConfig securityError of
                   Some h \<Rightarrow> Inr h
                 | None \<Rightarrow>
                     (case typeSpecific rt dbType dbConfig of
                        Inl e \<Rightarrow> Inl e
                      | Inr (Inl h) \<Rightarrow> Inr h
                      | Inr (Inr cfg) \<Rightarrow> loadDriver rt dbType cfg))))"

section \<open>The query filter\<close>

text \<open>
  The collaborators of \<^verbatim>\<open>src/utils/dataSourceHelpers.js\<close> and the token library, which
  the file imports: each returns a value or throws (rejects).
\<close>

record helpers =
  CUBEJS_SECRET :: jsval
  jwt_verify :: "jsval \<Rightarrow> jsval \<Rightarrow> exn + jsval"
  findDataSource :: "jsval \<Rightarrow> jsval \<Rightarrow> exn + jsval"
  getPermissions :: "jsval \<Rightarrow> exn + jsval"
  buildSecurityContext :: "jsval \<Rightarrow> exn + jsval"

text \<open>
  \<^verbatim>\<open>...(v || [])\<close> inside an array literal: an array gives its elements, a string its
  characters, any other truthy value is not iterable.
\<close>

fun spread_iterable :: "jsval \<Rightarrow> exn + jsval list" where
  "spread_iterable (Arr xs) = Inr xs"
| "spread_iterable (Str s) = Inr (map (\<lambda>c. Str [c]) s)"
| "spread_iterable v = Inl (TypeError ''value is not iterable'')"

definition or_empty :: "jsval \<Rightarrow> jsval" where
  "or_empty v = (if truthy v then v else Arr [])"

text \<open>Lines 285-289: \<^verbatim>\<open>getColumnsArray\<close>.\<close>

definition getColumnsArray :: "jsval \<Rightarrow> exn + jsval list" where
  "getColumnsArray cube =
     (case spread_iterable (or_empty (get cube ''dimensions'')) of
        Inl e \<Rightarrow> Inl e
      | Inr ds \<Rightarrow>
          (case spread_iterable (or_empty (get cube ''measures'')) of
             Inl e \<Rightarrow> Inl e
           | Inr ms \<Rightarrow>
               (case spread_iterable (or_empty (get cube ''segments'')) of
                  Inl e \<Rightarrow> Inl e
                | Inr ss \<Rightarrow> Inr (ds @ ms @ ss))))"

text \<open>Lines 306-309: the \<^verbatim>\<open>reduce\<close> over the cubes, from the accumulator \<open>acc\<close>.\<close>

fun reduce_columns :: "jsval list \<Rightarrow> jsval list \<Rightarrow> exn + jsval list" where
  "reduce_columns acc [] = Inr acc"
| "reduce_columns acc (cube # cubes) =
     (case getColumnsArray cube of
        Inl e \<Rightarrow> Inl e
      | Inr cs \<Rightarrow> reduce_columns (acc @ cs) cubes)"

text \<open>
  \<^verbatim>\<open>Array.prototype.includes\<close> compares with SameValueZero: primitives by value (NaN
  equal to itself), objects and arrays by reference, and no name of the query is the
  same reference as a name of the configuration.
\<close>

fun SameValueZero :: "jsval \<Rightarrow> jsval \<Rightarrow> bool" where
  "SameValueZero (Arr xs) y = False"
| "SameValueZero (Obj kvs) y = False"
| "SameValueZero x y = (x = y)"

definition array_includes :: "jsval list \<Rightarrow> jsval \<Rightarrow> bool" where
  "array_includes xs x = list_ex (\<lambda>y. SameValueZero y x) xs"

text \<open>
  Lines 292-318: \<^verbatim>\<open>queryRewrite\<close>, from the query and the security context of its second
  argument. Destructuring undefined or null throws.
\<close>

definition queryRewrite :: "helpers \<Rightarrow> jsval \<Rightarrow> jsval \<Rightarrow> exn + jsval" where
  "queryRewrite hp query securityContext =
     (if nullish securityContext
      then Inl (TypeError ''Cannot destructure property dataSourceId of securityContext'')
      else
        (let dataSourceId = get securityContext ''dataSourceId'';
             userId = get securityContext ''userId''
         in case (if truthy (get securityContext ''config'') then Inr securityContext
                  else getPermissions hp userId) of
              Inl e \<Rightarrow> Inl e
            | Inr permissions \<Rightarrow>
                if nullish permissions
                then Inl (TypeError ''Cannot destructure property config of permissions'')
                else
                  (let config = get permissions ''config'';
                       role = get permissions ''role'';
                       accessDatasource =
                         get (get (get config ''datasources'') (ToString dataSourceId)) ''cubes''
                   in if array_includes [Str ''owner'', Str ''admin''] role \<or> falsy config
                      then Inr query
                      else if falsy accessDatasource
                      then Inl (Error ''No access to datasource!'')
                      else
                        (case getColumnsArray query of
                           Inl e \<Rightarrow> Inl e
                         | Inr queryNames \<Rightarrow>
                             (case reduce_columns [] (Object_values accessDatasource) of
                                Inl e \<Rightarrow> Inl e
                              | Inr accessNames \<Rightarrow>
                                  (case find (\<lambda>cn. \<not> array_includes accessNames cn) queryNames of
                                     Some cn \<Rightarrow>
                                       Inl (Error (''No access to '' @ ToString cn @ '' cube!''))
                                   | None \<Rightarrow> Inr query))))))"

section \<open>The auth gate\<close>

text \<open>The request: its headers and the security context the gate attaches to it.\<close>

record request =
  headers :: jsval
  securityContext :: jsval

text \<open>Lines 34-37: \<^verbatim>\<open>pushError\<close> replaces the security context and returns null.\<close>

definition pushError :: "request \<Rightarrow> jsval \<Rightarrow> request \<times> jsval" where
  "pushError req error = (req\<lparr>securityContext := Obj [(''error'', error)]\<rparr>, Null)"

text \<open>\<^verbatim>\<open>err.message\<close> of a caught value; reading it off undefined or null throws.\<close>

fun message_of :: "exn \<Rightarrow> exn + jsval" where
  "message_of (ErrorObj name message) = Inr (Str message)"
| "message_of (Thrown v) =
     (if nullish v then Inl (TypeError ''Cannot read properties of undefined (reading message)'')
      else Inr (get v ''message''))"

text \<open>
  Lines 53-94: \<^verbatim>\<open>setupAuthInfo\<close>. The result is the request as the function leaves it
  and the value returned.
\<close>

definition setupAuthInfo :: "helpers \<Rightarrow> request \<Rightarrow> exn + (request \<times> jsval)" where
  "setupAuthInfo hp req =
     (if nullish (headers req)
      then Inl (TypeError ''Cannot destructure property authorization of req.headers'')
      else
        (let cubejsAuthToken = get (headers req) ''authorization'';
             authToken = get (headers req) ''x-hasura-authorization''
         in case jwt_verify hp cubejsAuthToken (CUBEJS_SECRET hp) of
              Inl err \<Rightarrow>
                (case message_of err of
                   Inl e \<Rightarrow> Inl e
                 | Inr message \<Rightarrow> Inr (pushError req message))
            | Inr jwtDecoded \<Rightarrow>
                (let decoded = (if falsy jwtDecoded then Obj [] else jwtDecoded);
                     dataSourceId = get decoded ''dataSourceId'';
                     userId = get decoded ''userId''
                 in if falsy dataSourceId
                    then Inr (pushError req (Str ''Provide dataSourceId''))
                    else
                      (case findDataSource hp dataSourceId authToken of
                         Inl e \<Rightarrow> Inl e
                       | Inr dataSource \<Rightarrow>
                           (case getPermissions hp userId of
                              Inl e \<Rightarrow> Inl e
                            | Inr permissions \<Rightarrow>
                                if falsy (get dataSource ''id'')
                                then Inr (pushError req
                                       (Str (''Source '' @ [CHR 0x22] @ ToString dataSourceId
                                             @ [CHR 0x22] @ '' not found'')))
                                else
                                  (case buildSecurityContext hp dataSource of
                                     Inl e \<Rightarrow> Inl e
                                   | Inr context \<Rightarrow>
                                       Inr (req\<lparr>securityContext := Obj
                                              (spread_into
                                                 (spread_into
                                                    [(''dataSourceId'', dataSourceId),
                                                     (''userId'', userId),
                                                     (''authToken'', authToken)]
                                                    permissions)
                                                 context)\<rparr>,
                                            Undefined)))))))"

section \<open>Sample collaborators\<close>

text \<open>
  One runtime and one set of helpers on which the functions can be run: a number reader
  for unsigned decimal strings, a parser that knows the empty object, the driver packages
  of a few type tags, an import that finds every package but the one named
  \<^verbatim>\<open>undefined\<close>, modules whose class is \<^verbatim>\<open>default\<close> (\<^verbatim>\<open>default.default\<close> in the druid
  package); a store with one datasource \<^verbatim>\<open>ds1\<close>, whose access configuration grants the
  dimension \<^verbatim>\<open>a\<close> and the measure \<^verbatim>\<open>b\<close> of a cube \<^verbatim>\<open>X\<close> to members.
\<close>

definition sample_StringToNumber :: "string \<Rightarrow> jsval" where
  "sample_StringToNumber s =
     (if list_all (\<lambda>c. digit_value c < 10) s
      then Num (int (foldl (\<lambda>a c. a * 10 + digit_value c) 0 s)) else NaN)"

definition sample_runtime :: runtime where
  "sample_runtime =
     \<lparr>JSON_parse = (\<lambda>s. if s = ''{}'' then Inr (Obj [])
                         else Inl (ErrorObj ''SyntaxError'' ''Unexpected token in JSON'')),
      StringToNumber = sample_StringToNumber,
      DriverDependencies = (\<lambda>tag.
         if tag \<in> set [''postgres'', ''clickhouse'', ''druid'', ''ksql'', ''mssql'', ''elasticsearch'']
         then Str (''@cubejs-backend/'' @ tag @ ''-driver'') else Undefined),
      import_module = (\<lambda>specifier.
         if specifier = ''undefined'' then Inl (Error ''Cannot find package undefined'')
         else Inr specifier),
      construct = (\<lambda>driverModule path dbConfig.
         if path = (if driverModule = ''@cubejs-backend/druid-driver''
                    then [''default'', ''default''] else [''default''])
         then None else Some (TypeError ''driverModule.default is not a constructor''))\<rparr>"

definition sample_config :: jsval where
  "sample_config =
     Obj [(''datasources'', Obj [(''ds1'', Obj [(''cubes'', Obj [(''X'',
       Obj [(''dimensions'', Arr [Str ''a'']), (''measures'', Arr [Str ''b''])])])])])]"

definition sample_helpers :: helpers where
  "sample_helpers =
     \<lparr>CUBEJS_SECRET = Str ''secret'',
      jwt_verify = (\<lambda>token secret.
         if token = Str ''signed'' \<and> secret = Str ''secret''
         then Inr (Obj [(''dataSourceId'', Str ''ds1''), (''userId'', Str ''u1'')])
         else Inl (ErrorObj ''JsonWebTokenError'' ''invalid signature'')),
      findDataSource = (\<lambda>dataSourceId authToken.
         if dataSourceId = Str ''ds1'' then Inr (Obj [(''id'', Str ''ds1'')]) else Inr Null),
      getPermissions = (\<lambda>userId. Inr (Obj [(''role'', Str ''member''), (''config'', sample_config)])),
      buildSecurityContext = (\<lambda>dataSource. Inr (Obj [(''dbType'', Str ''postgres'')]))\<rparr>"

section \<open>Properties of values and of the stripping\<close>

lemma get_Obj: "get (Obj kvs) k = (case map_of kvs k of Some x \<Rightarrow> x | None \<Rightarrow> Undefined)"
  by (simp add: get_def)

lemma get_of_falsy: "falsy v \<Longrightarrow> get v k = Undefined"
  by (cases v) (simp_all add: get_def)

lemma get_or_empty_object: "get (if falsy sc then Obj [] else sc) k = get sc k"
  by (simp add: get_of_falsy) (simp add: get_def)

lemma truthy_get_is_key: "truthy (get v k) \<Longrightarrow> k \<in> set (Object_keys v) \<and> \<not> falsy v"
proof -
  assume t: "truthy (get v k)"
  then have "map_of (entries v) k \<noteq> None"
    by (auto simp: get_def truthy_def split: option.splits)
  then have "k \<in> fst ` set (entries v)"
    by (simp add: map_of_eq_None_iff)
  moreover have "\<not> falsy v"
    using t get_of_falsy [of v k] by (auto simp: truthy_def)
  ultimately show ?thesis by (simp add: Object_keys_def)
qed

lemma is_object_truthy: "is_object v \<Longrightarrow> truthy v"
  by (cases v) (simp_all add: truthy_def)

lemma map_of_fold_set_prop:
  "map_of (fold (\<lambda>key res. set_prop key (f key) res) ks acc) k =
     (if k \<in> set ks then Some (f k) else map_of acc k)"
  by (induction ks arbitrary: acc) (simp_all add: set_prop_def update_conv')


text \<open>
  The assignments of the reduce: every key but \<^verbatim>\<open>__proto__\<close> becomes an own property,
  and \<^verbatim>\<open>__proto__\<close> sets the prototype.
\<close>

lemma fold_assign:
  "map_of kvs ''__proto__'' = None \<Longrightarrow> p \<noteq> Some Null \<Longrightarrow>
   (''__proto__'' \<in> set ks \<Longrightarrow> f ''__proto__'' \<noteq> Null) \<Longrightarrow>
   fold (\<lambda>key res. assign key (f key) res) ks (Config kvs p) =
     Config (fold (\<lambda>key res. set_prop key (f key) res) (filter (\<lambda>k. k \<noteq> ''__proto__'') ks) kvs)
       (if ''__proto__'' \<in> set ks \<and> is_object (f ''__proto__'') then Some (f ''__proto__'') else p)"
proof (induction ks arbitrary: kvs p)
  case Nil
  then show ?case by simp
next
  case (Cons k ks)
  have tail: "''__proto__'' \<in> set ks \<Longrightarrow> f ''__proto__'' \<noteq> Null"
    using Cons.prems(3) by simp
  show ?case
  proof (cases "k = ''__proto__''")
    case True
    then have nn: "f ''__proto__'' \<noteq> Null" using Cons.prems(3) by simp
    show ?thesis
    proof (cases "is_object (f ''__proto__'')")
      case obj: True
      have "Some (f ''__proto__'') \<noteq> Some Null" using nn by simp
      from Cons.IH [OF Cons.prems(1) this tail] True obj nn Cons.prems(1,2) show ?thesis
        by simp
    next
      case False
      from Cons.IH [OF Cons.prems(1,2) tail] True False nn Cons.prems(1,2) show ?thesis by simp
    qed
  next
    case False
    then have "map_of (set_prop k (f k) kvs) ''__proto__'' = None"
      using Cons.prems by (simp add: set_prop_def update_conv')
    from Cons.IH [OF this Cons.prems(2) tail] False show ?thesis by simp
  qed
qed

lemma strip_falsy_Config:
  "strip_falsy parsed =
     Config
       (fold (\<lambda>key res. set_prop key (get parsed key) res)
          (filter (\<lambda>k. k \<noteq> ''__proto__'')
             (filter (\<lambda>key. truthy (get parsed key))
                (Object_keys (if falsy parsed then Obj [] else parsed))))
          [])
       (if is_object (get parsed ''__proto__'') then Some (get parsed ''__proto__'') else None)"
proof -
  let ?keys = "filter (\<lambda>key. truthy (get parsed key))
                 (Object_keys (if falsy parsed then Obj [] else parsed))"
  have obj: "is_object (get parsed ''__proto__'') \<Longrightarrow> ''__proto__'' \<in> set ?keys"
    using truthy_get_is_key [of parsed "''__proto__''"] is_object_truthy by auto
  have nn: "''__proto__'' \<in> set ?keys \<Longrightarrow> get parsed ''__proto__'' \<noteq> Null"
    by (auto simp: truthy_def)
  have "fold (\<lambda>key res. assign key (get parsed key) res) ?keys (plain []) =
     Config (fold (\<lambda>key res. set_prop key (get parsed key) res)
               (filter (\<lambda>k. k \<noteq> ''__proto__'') ?keys) [])
       (if ''__proto__'' \<in> set ?keys \<and> is_object (get parsed ''__proto__'')
        then Some (get parsed ''__proto__'') else None)"
    using nn by (intro fold_assign) simp_all
  then show ?thesis
    using obj unfolding strip_falsy_def by auto
qed

lemma map_of_own_strip_falsy:
  "map_of (own_props (strip_falsy parsed)) k =
     (if truthy (get parsed k) \<and> k \<noteq> ''__proto__'' then Some (get parsed k) else None)"
  using truthy_get_is_key [of parsed k]
  by (auto simp: strip_falsy_Config map_of_fold_set_prop)

lemma read_strip_falsy:
  "read_prop (strip_falsy parsed) k =
     (if truthy (get parsed k) \<and> k \<noteq> ''__proto__'' then get parsed k
      else if is_object (get parsed ''__proto__'') then get (get parsed ''__proto__'') k
      else Undefined)"
  using map_of_own_strip_falsy [of parsed k]
  by (simp add: strip_falsy_Config)






section \<open>Properties of the driver factory\<close>

text \<open>The factory with the destructuring of its first lines carried out.\<close>

lemma driverFactory_unfold:
  "driverFactory rt sc =
     (if falsy (get sc ''dbParams'') \<or> length (Object_keys (get sc ''dbParams'')) = 0
      then Inr (Failed ''Datasource credentials not found or incorrect'')
      else
        (case parse_dbParams rt (get sc ''dbParams'') of
           Inl h \<Rightarrow> Inr h
         | Inr parsed \<Rightarrow>
             (case validate rt (strip_falsy parsed) (get sc ''error'') of
                Some h \<Rightarrow> Inr h
              | None \<Rightarrow>
                  (case typeSpecific rt (get sc ''dbType'') (strip_falsy parsed) of
                     Inl e \<Rightarrow> Inl e
                   | Inr (Inl h) \<Rightarrow> Inr h
                   | Inr (Inr cfg) \<Rightarrow> loadDriver rt (get sc ''dbType'') cfg))))"
  unfolding driverFactory_def Let_def get_or_empty_object
  by (simp add: get_Obj truthy_def)

lemma driverFactory_parsed:
  assumes "truthy (get sc ''dbParams'')" and "Object_keys (get sc ''dbParams'') \<noteq> []"
    and "parse_dbParams rt (get sc ''dbParams'') = Inr parsed"
  shows "driverFactory rt sc =
     (case validate rt (strip_falsy parsed) (get sc ''error'') of
        Some h \<Rightarrow> Inr h
      | None \<Rightarrow>
          (case typeSpecific rt (get sc ''dbType'') (strip_falsy parsed) of
             Inl e \<Rightarrow> Inl e
           | Inr (Inl h) \<Rightarrow> Inr h
           | Inr (Inr cfg) \<Rightarrow> loadDriver rt (get sc ''dbType'') cfg))"
  using assms by (simp add: driverFactory_unfold truthy_def)

lemma validate_port:
  assumes "read_prop dbConfig ''port'' = port"
  shows "validate rt dbConfig securityError =
     (if truthy port \<and> \<not> (ge_number rt port 0 \<and> lt_number rt port 65536)
      then Some (Failed (''Port should be >= 0 and < 65536. Received '' @ ToString port @ ''.''))
      else if truthy securityError then Some (driverError (Thrown securityError)) else None)"
  using assms by (auto simp: validate_def connParamValid_def)

lemma read_assign:
  "k \<noteq> ''__proto__'' \<Longrightarrow>
   read_prop (assign k v c) k' = (if k' = k then v else read_prop c k')"
  by (cases c) (simp add: set_prop_def update_conv')

lemma read_plain_set_prop:
  "read_prop (plain (set_prop k v kvs)) k' = (if k' = k then v else read_prop (plain kvs) k')"
  by (simp add: set_prop_def update_conv')

lemmas config_defs =
  get_def Object_keys_def truthy_def set_prop_def parse_dbParams_def strip_falsy_def
  validate_def connParamValid_def ge_number_def lt_number_def typeSpecific_def

text \<open>
  An exception leaves the factory only from the mssql case, from the druid and ksql
  cases, and from the construction of the driver after the \<^verbatim>\<open>try\<close>: every other failure
  is caught and becomes the fail-closed handle.
\<close>

lemma typeSpecific_throws:
  "typeSpecific rt t cfg = Inl e \<Longrightarrow> t = Str ''mssql'' \<or> t = Str ''druid'' \<or> t = Str ''ksql''"
  by (auto simp: typeSpecific_def bigquery_case_def clickhouse_case_def athena_case_def
      elasticsearch_case_def snowflake_case_def firebolt_case_def Let_def
      split: if_splits sum.splits)

lemma loadDriver_throws:
  "loadDriver rt t cfg = Inl e \<Longrightarrow> \<exists>m path. construct rt m path cfg = Some e"
  by (auto simp: loadDriver_def new_driver_def Let_def split: sum.splits if_splits option.splits)

lemma driverFactory_throws_only:
  assumes "driverFactory rt sc = Inl e"
  shows "get sc ''dbType'' = Str ''mssql'' \<or> get sc ''dbType'' = Str ''druid''
         \<or> get sc ''dbType'' = Str ''ksql''
         \<or> (\<exists>m path cfg. construct rt m path cfg = Some e)"
proof -
  have "(\<exists>cfg. typeSpecific rt (get sc ''dbType'') cfg = Inl e)
        \<or> (\<exists>cfg. loadDriver rt (get sc ''dbType'') cfg = Inl e)"
    using assms
    by (auto simp: driverFactory_unfold split: if_splits sum.splits option.splits)
  then show ?thesis
    using typeSpecific_throws loadDriver_throws by blast
qed

text \<open>A type tag whose import is rejected, an unlisted one among them, fails closed.\<close>

lemma loadDriver_rejected:
  "import_module rt (ToString (DriverDependencies rt (ToString t))) = Inl err \<Longrightarrow>
   loadDriver rt t cfg = Inr (driverError err)"
  by (simp add: loadDriver_def)

lemma loadDriver_default:
  "import_module rt (ToString (DriverDependencies rt (ToString t))) = Inr m \<Longrightarrow>
   t \<noteq> Str ''databricks-jdbc'' \<Longrightarrow>
   loadDriver rt t cfg =
     new_driver rt m (if t = Str ''druid'' then [''default'', ''default''] else [''default'']) cfg"
  by (simp add: loadDriver_def)

text \<open>
  C1. The claim does not hold of the code at two places. An mssql context whose
  parameters have no port reads the undeclared \<^verbatim>\<open>MSSQL_DEFAULT_PORT\<close>, and a druid (or
  ksql) context whose parameters have no host calls \<^verbatim>\<open>startsWith\<close> on undefined; both
  happen outside every \<^verbatim>\<open>try\<close>, so the exception leaves \<^verbatim>\<open>driverFactory\<close>, whatever the
  runtime.
\<close>

theorem driverFactory_mssql_druid_throw:
  "driverFactory rt (Obj [(''dbType'', Str ''mssql''), (''dbParams'', Obj [(''host'', Str ''h'')])])
     = Inl (ReferenceError ''MSSQL_DEFAULT_PORT is not defined'')
   \<and> driverFactory rt (Obj [(''dbType'', Str ''druid''), (''dbParams'', Obj [(''port'', Num 8082)])])
     = Inl (TypeError ''Cannot read properties of undefined (reading startsWith)'')"
  by (simp add: driverFactory_def config_defs mssql_case_def parseInt_def is_space_def
      digit_value_def MSSQL_DEFAULT_PORT_def url_case_def makeUrl_def)

text \<open>
  The elasticsearch statements build the nested \<^verbatim>\<open>auth\<close>, with an \<^verbatim>\<open>apiKey\<close> exactly when
  both an API id and an API key are set; the statements they fall into add \<^verbatim>\<open>account\<close>.
\<close>

lemma elasticsearch_config_auth:
  "read_prop (elasticsearch_config cfg) ''auth'' =
     Obj ([(''username'', read_prop cfg ''username''), (''password'', read_prop cfg ''password'')]
          @ (if truthy (read_prop (plain (own_props cfg)) ''apiId'')
                \<and> truthy (read_prop (plain (own_props cfg)) ''apiKey'')
             then [(''apiKey'', Obj [(''id'', read_prop (plain (own_props cfg)) ''apiId''),
                                    (''api_key'', read_prop (plain (own_props cfg)) ''apiKey'')])]
             else []))"
  by (simp add: elasticsearch_config_def Let_def set_prop_def update_conv')

lemma elasticsearch_case_account:
  "typeSpecific rt (Str ''elasticsearch'') cfg = Inr (Inr c) \<Longrightarrow>
   read_prop c ''account'' =
     Str (join ''-'' [read_prop (plain (own_props cfg)) ''orgId'',
                     read_prop (plain (own_props cfg)) ''accountId''])"
  by (auto simp: typeSpecific_def elasticsearch_case_def snowflake_config_def
      elasticsearch_config_def Let_def set_prop_def update_conv')

text \<open>
  C5. The claim does not hold of the code: the elasticsearch case has no \<^verbatim>\<open>break\<close>, so
  an elasticsearch configuration also receives the \<^verbatim>\<open>account\<close> of the snowflake case,
  here the string \<^verbatim>\<open>-\<close> that joining two absent fields gives.
\<close>

theorem driverFactory_elasticsearch_account:
  "driverFactory rt
     (Obj [(''dbType'', Str ''elasticsearch''),
           (''dbParams'', Obj [(''url'', Str ''http://es:9200''), (''username'', Str ''u''),
                               (''password'', Str ''p'')])])
   = loadDriver rt (Str ''elasticsearch'')
       (plain
         [(''url'', Str ''http://es:9200''), (''username'', Str ''u''), (''password'', Str ''p''),
          (''queryFormat'', Str ''json''),
          (''auth'', Obj [(''username'', Str ''u''), (''password'', Str ''p'')]),
          (''account'', Str ''-'')])"
  by (simp add: driverFactory_def config_defs elasticsearch_case_def elasticsearch_config_def
      snowflake_config_def join_def)

text \<open>
  C9. For the type tag clickhouse and parameters that parse to
  \<^verbatim>\<open>{user:"u", password:"p", host:"h", port:9000, ssl:true}\<close>, with no error in the
  context and a clickhouse package that loads, the factory constructs the driver (the
  \<^verbatim>\<open>default\<close> class of the package) with exactly
  \<^verbatim>\<open>{host:"h", port:9000, auth:"u:p", protocol:"https:", queryOptions:{database:"default"}}\<close>,
  and returns it when the construction returns.
\<close>

theorem driverFactory_clickhouse_scenario:
  assumes "truthy (get sc ''dbParams'')" and "Object_keys (get sc ''dbParams'') \<noteq> []"
    and "parse_dbParams rt (get sc ''dbParams'') =
           Inr (Obj [(''user'', Str ''u''), (''password'', Str ''p''), (''host'', Str ''h''),
                     (''port'', Num 9000), (''ssl'', Bool True)])"
    and "get sc ''dbType'' = Str ''clickhouse''"
    and "falsy (get sc ''error'')"
    and "import_module rt (ToString (DriverDependencies rt ''clickhouse'')) = Inr m"
  shows "driverFactory rt sc =
     new_driver rt m [''default'']
       (plain [(''host'', Str ''h''), (''port'', Num 9000), (''auth'', Str ''u:p''),
               (''protocol'', Str ''https:''),
               (''queryOptions'', Obj [(''database'', Str ''default'')])])
   \<and> (construct rt m [''default'']
         (plain [(''host'', Str ''h''), (''port'', Num 9000), (''auth'', Str ''u:p''),
                 (''protocol'', Str ''https:''),
                 (''queryOptions'', Obj [(''database'', Str ''default'')])]) = None
       \<longrightarrow> driverFactory rt sc =
         Inr (Driver m [''default'']
           (plain [(''host'', Str ''h''), (''port'', Num 9000), (''auth'', Str ''u:p''),
                   (''protocol'', Str ''https:''),
                   (''queryOptions'', Obj [(''database'', Str ''default'')])])))"
proof -
  let ?p = "Obj [(''user'', Str ''u''), (''password'', Str ''p''), (''host'', Str ''h''),
                 (''port'', Num 9000), (''ssl'', Bool True)]"
  have s: "strip_falsy ?p =
      plain [(''user'', Str ''u''), (''password'', Str ''p''), (''host'', Str ''h''),
             (''port'', Num 9000), (''ssl'', Bool True)]"
    by (simp add: strip_falsy_def Object_keys_def get_def truthy_def set_prop_def)
  have v: "validate rt (strip_falsy ?p) (get sc ''error'') = None"
    using assms(5)
    by (simp add: s validate_def truthy_def connParamValid_def ge_number_def lt_number_def)
  have t: "typeSpecific rt (Str ''clickhouse'') (strip_falsy ?p) =
      Inr (Inr (plain [(''host'', Str ''h''), (''port'', Num 9000), (''auth'', Str ''u:p''),
                (''protocol'', Str ''https:''),
                (''queryOptions'', Obj [(''database'', Str ''default'')])]))"
    by (simp add: s typeSpecific_def clickhouse_case_def truthy_def join_def)
  have "driverFactory rt sc =
     new_driver rt m [''default'']
       (plain [(''host'', Str ''h''), (''port'', Num 9000), (''auth'', Str ''u:p''),
               (''protocol'', Str ''https:''),
               (''queryOptions'', Obj [(''database'', Str ''default'')])])"
    using assms(1-4,6) v t by (simp add: driverFactory_parsed loadDriver_def)
  then show ?thesis by (simp add: new_driver_def)
qed

theorem driverFactory_clickhouse_scenario_witness:
  "driverFactory sample_runtime
     (Obj [(''dbType'', Str ''clickhouse''),
           (''dbParams'', Obj [(''user'', Str ''u''), (''password'', Str ''p''),
                               (''host'', Str ''h''), (''port'', Num 9000), (''ssl'', Bool True)])])
   = Inr (Driver ''@cubejs-backend/clickhouse-driver'' [''default'']
       (plain [(''host'', Str ''h''), (''port'', Num 9000), (''auth'', Str ''u:p''),
               (''protocol'', Str ''https:''),
               (''queryOptions'', Obj [(''database'', Str ''default'')])]))"
proof -
  let ?p = "Obj [(''user'', Str ''u''), (''password'', Str ''p''),
                 (''host'', Str ''h''), (''port'', Num 9000), (''ssl'', Bool True)]"
  let ?sc = "Obj [(''dbType'', Str ''clickhouse''), (''dbParams'', ?p)]"
  have h1: "truthy (get ?sc ''dbParams'')" and h2: "Object_keys (get ?sc ''dbParams'') \<noteq> []"
    and h3: "parse_dbParams sample_runtime (get ?sc ''dbParams'') = Inr ?p"
    and h4: "get ?sc ''dbType'' = Str ''clickhouse''"
    and h5: "falsy (get ?sc ''error'')"
    by (simp_all add: get_def Object_keys_def truthy_def parse_dbParams_def)
  have h6: "import_module sample_runtime (ToString (DriverDependencies sample_runtime ''clickhouse''))
            = Inr ''@cubejs-backend/clickhouse-driver''"
    by (simp add: sample_runtime_def)
  have c: "\<And>cfg. construct sample_runtime ''@cubejs-backend/clickhouse-driver'' [''default''] cfg
             = None"
    by (simp add: sample_runtime_def)
  show ?thesis
    using driverFactory_clickhouse_scenario [OF h1 h2 h3 h4 h5 h6]
    by (simp add: new_driver_def c)
qed

text \<open>
  C6, as the code has it. For parameters that parse to a mapping whose port field holds
  the value \<open>port\<close>. A truthy port that fails \<^verbatim>\<open>port >= 0 && port < 65536\<close> makes the
  factory return the fail-closed handle with the message of the port check, whatever
  else the context holds. When nothing else fails (no error in the context, a
  type-specific derivation that goes through, a driver that loads), the factory returns
  a fail-closed handle if and only if the port is truthy and fails that test; a falsy
  port (0, the empty string) is stripped and not checked. The test reads the port as a
  number: for a number \<open>p\<close> it fails exactly when \<open>p < 0\<close> or \<open>p \<ge> 65536\<close>, and for NaN
  (a string that is no numeral) it always fails.
\<close>

theorem driverFactory_port_check:
  assumes "truthy (get sc ''dbParams'')" and "Object_keys (get sc ''dbParams'') \<noteq> []"
    and "parse_dbParams rt (get sc ''dbParams'') = Inr parsed"
    and "get parsed ''port'' = port"
  shows "(truthy port \<and> \<not> (ge_number rt port 0 \<and> lt_number rt port 65536) \<longrightarrow>
            driverFactory rt sc =
              Inr (Failed (''Port should be >= 0 and < 65536. Received '' @ ToString port @ ''.'')))
       \<and> ((truthy port \<or> \<not> is_object (get parsed ''__proto__''))
            \<and> falsy (get sc ''error'')
            \<and> typeSpecific rt (get sc ''dbType'') (strip_falsy parsed) = Inr (Inr cfg)
            \<and> loadDriver rt (get sc ''dbType'') cfg = Inr (Driver m path c)
          \<longrightarrow> ((\<exists>message. driverFactory rt sc = Inr (Failed message))
                \<longleftrightarrow> truthy port \<and> \<not> (ge_number rt port 0 \<and> lt_number rt port 65536)))
       \<and> (\<forall>p. ToNumber rt port = Num p \<longrightarrow>
            (\<not> (ge_number rt port 0 \<and> lt_number rt port 65536) \<longleftrightarrow> p < 0 \<or> 65536 \<le> p))
       \<and> (ToNumber rt port = NaN \<longrightarrow> \<not> (ge_number rt port 0 \<and> lt_number rt port 65536))
       \<and> (\<forall>p. port = Num p \<longrightarrow>
            (truthy port \<and> \<not> (ge_number rt port 0 \<and> lt_number rt port 65536)
             \<longleftrightarrow> p < 0 \<or> 65536 \<le> p))"
proof -
  let ?bad = "truthy port \<and> \<not> (ge_number rt port 0 \<and> lt_number rt port 65536)"
  have kept: "truthy port \<Longrightarrow> read_prop (strip_falsy parsed) ''port'' = port"
    using assms(4) by (simp add: read_strip_falsy)
  have gone: "\<not> truthy port \<Longrightarrow> \<not> is_object (get parsed ''__proto__'') \<Longrightarrow>
              read_prop (strip_falsy parsed) ''port'' = Undefined"
    using assms(4) by (simp add: read_strip_falsy)
  have one: "?bad \<longrightarrow> driverFactory rt sc =
      Inr (Failed (''Port should be >= 0 and < 65536. Received '' @ ToString port @ ''.''))"
    using kept by (auto simp: driverFactory_parsed [OF assms(1-3)] validate_port)
  have two: "(truthy port \<or> \<not> is_object (get parsed ''__proto__''))
            \<and> falsy (get sc ''error'')
            \<and> typeSpecific rt (get sc ''dbType'') (strip_falsy parsed) = Inr (Inr cfg)
            \<and> loadDriver rt (get sc ''dbType'') cfg = Inr (Driver m path c)
          \<longrightarrow> ((\<exists>message. driverFactory rt sc = Inr (Failed message)) \<longleftrightarrow> ?bad)"
  proof (cases "truthy port")
    case True
    then show ?thesis
      using kept by (auto simp: driverFactory_parsed [OF assms(1-3)] validate_port truthy_def)
  next
    case False
    then show ?thesis
      using gone
      by (auto simp: driverFactory_parsed [OF assms(1-3)]
          validate_port [of _ Undefined] truthy_def)
  qed
  have three: "\<forall>p. ToNumber rt port = Num p \<longrightarrow>
            (\<not> (ge_number rt port 0 \<and> lt_number rt port 65536) \<longleftrightarrow> p < 0 \<or> 65536 \<le> p)"
    by (auto simp: ge_number_def lt_number_def)
  have four: "ToNumber rt port = NaN \<longrightarrow> \<not> (ge_number rt port 0 \<and> lt_number rt port 65536)"
    by (simp add: ge_number_def)
  have five: "\<forall>p. port = Num p \<longrightarrow> (?bad \<longleftrightarrow> p < 0 \<or> 65536 \<le> p)"
    by (auto simp: ge_number_def lt_number_def truthy_def)
  from one two three four five show ?thesis by blast
qed

theorem driverFactory_port_check_witness:
  "driverFactory sample_runtime
     (Obj [(''dbType'', Str ''postgres''),
           (''dbParams'', Obj [(''host'', Str ''h''), (''port'', Num 70000)])])
     = Inr (Failed ''Port should be >= 0 and < 65536. Received 70000.'')
   \<and> driverFactory sample_runtime
     (Obj [(''dbType'', Str ''postgres''),
           (''dbParams'', Obj [(''host'', Str ''h''), (''port'', Str ''70000'')])])
     = Inr (Failed ''Port should be >= 0 and < 65536. Received 70000.'')
   \<and> (\<nexists>message. driverFactory sample_runtime
         (Obj [(''dbType'', Str ''postgres''),
               (''dbParams'', Obj [(''host'', Str ''h''), (''port'', Num 5432)])])
         = Inr (Failed message))"
proof -
  let ?hi = "Obj [(''host'', Str ''h''), (''port'', Num 70000)]"
  let ?st = "Obj [(''host'', Str ''h''), (''port'', Str ''70000'')]"
  let ?ok = "Obj [(''host'', Str ''h''), (''port'', Num 5432)]"
  let ?schi = "Obj [(''dbType'', Str ''postgres''), (''dbParams'', ?hi)]"
  let ?scst = "Obj [(''dbType'', Str ''postgres''), (''dbParams'', ?st)]"
  let ?scok = "Obj [(''dbType'', Str ''postgres''), (''dbParams'', ?ok)]"
  have h1: "truthy (get ?schi ''dbParams'')" and h2: "Object_keys (get ?schi ''dbParams'') \<noteq> []"
    and h3: "parse_dbParams sample_runtime (get ?schi ''dbParams'') = Inr ?hi"
    and h4: "get ?hi ''port'' = Num 70000"
    and h5: "truthy (Num 70000)
             \<and> \<not> (ge_number sample_runtime (Num 70000) 0 \<and> lt_number sample_runtime (Num 70000) 65536)"
    by (simp_all add: get_def Object_keys_def truthy_def parse_dbParams_def ge_number_def
        lt_number_def)
  have s1: "truthy (get ?scst ''dbParams'')" and s2: "Object_keys (get ?scst ''dbParams'') \<noteq> []"
    and s3: "parse_dbParams sample_runtime (get ?scst ''dbParams'') = Inr ?st"
    and s4: "get ?st ''port'' = Str ''70000''"
    by (simp_all add: get_def Object_keys_def truthy_def parse_dbParams_def)
  have s5: "truthy (Str ''70000'')
            \<and> \<not> (ge_number sample_runtime (Str ''70000'') 0
                  \<and> lt_number sample_runtime (Str ''70000'') 65536)"
    by (simp add: truthy_def ge_number_def lt_number_def sample_runtime_def
        sample_StringToNumber_def digit_value_def)
  have o1: "truthy (get ?scok ''dbParams'')" and o2: "Object_keys (get ?scok ''dbParams'') \<noteq> []"
    and o3: "parse_dbParams sample_runtime (get ?scok ''dbParams'') = Inr ?ok"
    and o4: "get ?ok ''port'' = Num 5432"
    and o5: "falsy (get ?scok ''error'')" and o6: "truthy (Num 5432)"
    and o7: "ge_number sample_runtime (Num 5432) 0 \<and> lt_number sample_runtime (Num 5432) 65536"
    by (simp_all add: get_def Object_keys_def truthy_def parse_dbParams_def ge_number_def
        lt_number_def)
  have o8: "typeSpecific sample_runtime (get ?scok ''dbType'') (strip_falsy ?ok)
              = Inr (Inr (plain [(''host'', Str ''h''), (''port'', Num 5432)]))"
    by (simp add: config_defs)
  have o9: "loadDriver sample_runtime (get ?scok ''dbType'')
              (plain [(''host'', Str ''h''), (''port'', Num 5432)])
            = Inr (Driver ''@cubejs-backend/postgres-driver'' [''default'']
                (plain [(''host'', Str ''h''), (''port'', Num 5432)]))"
    by (simp add: get_def loadDriver_def new_driver_def sample_runtime_def)
  have n: "show_int 70000 = ''70000''"
    by (simp add: show_int_def show_nat.simps digit_char_def)
  have a: "driverFactory sample_runtime ?schi
             = Inr (Failed ''Port should be >= 0 and < 65536. Received 70000.'')"
    using driverFactory_port_check [OF h1 h2 h3 h4] h5 by (simp add: n)
  have b: "driverFactory sample_runtime ?scst
             = Inr (Failed ''Port should be >= 0 and < 65536. Received 70000.'')"
    using driverFactory_port_check [OF s1 s2 s3 s4] s5 by simp
  have c: "\<nexists>message. driverFactory sample_runtime ?scok = Inr (Failed message)"
    using driverFactory_port_check [OF o1 o2 o3 o4] o5 o6 o7 o8 o9 by simp
  from a b c show ?thesis by simp
qed

text \<open>
  The claim as first stated fails at the port check itself: the port \<^verbatim>\<open>'abc'\<close> is neither
  below 0 nor at least 65536, as JavaScript compares it, and is rejected.
\<close>

theorem driverFactory_port_check_counterexample:
  "\<not> lt_number sample_runtime (Str ''abc'') 0
   \<and> \<not> ge_number sample_runtime (Str ''abc'') 65536
   \<and> driverFactory sample_runtime
        (Obj [(''dbType'', Str ''postgres''),
              (''dbParams'', Obj [(''host'', Str ''h''), (''port'', Str ''abc'')])])
      = Inr (Failed ''Port should be >= 0 and < 65536. Received abc.'')"
  by (simp add: driverFactory_def config_defs sample_runtime_def sample_StringToNumber_def
      digit_value_def)



lemma truthy_join: "truthy (Str (join sep [a, b])) \<longleftrightarrow> join sep [a, b] \<noteq> []"
  by (simp add: truthy_def)









text \<open>
  C8, as the code has it. For the type tag druid or ksql, a host that is a non-empty
  string and a port that is truthy and passes the port check, with no error in the
  context and a package that loads: the factory constructs the driver with the stripped
  configuration in which \<^verbatim>\<open>url\<close> is set to the host, prefixed with \<^verbatim>\<open>http://\<close> unless it
  starts with \<^verbatim>\<open>http://\<close> or \<^verbatim>\<open>https://\<close>, then a colon, then the port; it returns that
  driver when the construction returns.
\<close>

theorem driverFactory_druid_ksql_url:
  assumes "truthy (get sc ''dbParams'')" and "Object_keys (get sc ''dbParams'') \<noteq> []"
    and "parse_dbParams rt (get sc ''dbParams'') = Inr parsed"
    and "get sc ''dbType'' = Str ''druid'' \<or> get sc ''dbType'' = Str ''ksql''"
    and "get parsed ''host'' = Str host" and "host \<noteq> []"
    and "get parsed ''port'' = port" and "truthy port" and "connParamValid rt port = Inr ()"
    and "falsy (get sc ''error'')"
    and "import_module rt (ToString (DriverDependencies rt (ToString (get sc ''dbType'')))) = Inr m"
    and "url = (if startsWith host ''http://'' \<or> startsWith host ''https://'' then host
                else ''http://'' @ host) @ '':'' @ ToString port"
    and "path = (if get sc ''dbType'' = Str ''druid'' then [''default'', ''default'']
                 else [''default''])"
  shows "driverFactory rt sc =
           new_driver rt m path (assign ''url'' (Str url) (strip_falsy parsed))
         \<and> (construct rt m path (assign ''url'' (Str url) (strip_falsy parsed)) = None \<longrightarrow>
              driverFactory rt sc =
                Inr (Driver m path (assign ''url'' (Str url) (strip_falsy parsed))))
         \<and> read_prop (assign ''url'' (Str url) (strip_falsy parsed)) ''url'' = Str url"
proof -
  have np: "\<not> nullish port" using assms(8) by (cases port) (simp_all add: truthy_def)
  have h: "read_prop (strip_falsy parsed) ''host'' = Str host"
    using assms(5,6) by (simp add: read_strip_falsy truthy_def)
  have p: "read_prop (strip_falsy parsed) ''port'' = port"
    using assms(7,8) by (simp add: read_strip_falsy)
  have v: "validate rt (strip_falsy parsed) (get sc ''error'') = None"
    using assms(8-10) by (simp add: validate_def p truthy_def)
  have u: "url_case (strip_falsy parsed) =
             Inr (Inr (assign ''url'' (Str url) (strip_falsy parsed)))"
    using np by (auto simp: url_case_def makeUrl_def h p join_def assms(12))
  have t: "typeSpecific rt (get sc ''dbType'') (strip_falsy parsed) =
             Inr (Inr (assign ''url'' (Str url) (strip_falsy parsed)))"
    using assms(4) u by (auto simp: typeSpecific_def)
  have l: "loadDriver rt (get sc ''dbType'') (assign ''url'' (Str url) (strip_falsy parsed)) =
           new_driver rt m path (assign ''url'' (Str url) (strip_falsy parsed))"
    unfolding assms(13) using assms(4) by (intro loadDriver_default [OF assms(11)]) auto
  have "driverFactory rt sc =
          new_driver rt m path (assign ''url'' (Str url) (strip_falsy parsed))"
    using v t l by (simp add: driverFactory_parsed [OF assms(1-3)])
  then show ?thesis by (simp add: read_assign new_driver_def)
qed

theorem driverFactory_druid_ksql_url_witness:
  "driverFactory sample_runtime
     (Obj [(''dbType'', Str ''druid''),
           (''dbParams'', Obj [(''host'', Str ''broker''), (''port'', Num 8082)])])
     = Inr (Driver ''@cubejs-backend/druid-driver'' [''default'', ''default'']
         (plain [(''host'', Str ''broker''), (''port'', Num 8082),
                 (''url'', Str ''http://broker:8082'')]))
   \<and> driverFactory sample_runtime
     (Obj [(''dbType'', Str ''ksql''),
           (''dbParams'', Obj [(''host'', Str ''https://k.example''), (''port'', Str ''8088'')])])
     = Inr (Driver ''@cubejs-backend/ksql-driver'' [''default'']
         (plain [(''host'', Str ''https://k.example''), (''port'', Str ''8088''),
                 (''url'', Str ''https://k.example:8088'')]))"
proof -
  let ?d = "Obj [(''host'', Str ''broker''), (''port'', Num 8082)]"
  let ?k = "Obj [(''host'', Str ''https://k.example''), (''port'', Str ''8088'')]"
  let ?scd = "Obj [(''dbType'', Str ''druid''), (''dbParams'', ?d)]"
  let ?sck = "Obj [(''dbType'', Str ''ksql''), (''dbParams'', ?k)]"
  have sd: "strip_falsy ?d = plain [(''host'', Str ''broker''), (''port'', Num 8082)]"
    and sk: "strip_falsy ?k =
               plain [(''host'', Str ''https://k.example''), (''port'', Str ''8088'')]"
    by (simp_all add: strip_falsy_def Object_keys_def get_def truthy_def set_prop_def)
  have d1: "truthy (get ?scd ''dbParams'')" and d2: "Object_keys (get ?scd ''dbParams'') \<noteq> []"
    and d3: "parse_dbParams sample_runtime (get ?scd ''dbParams'') = Inr ?d"
    and d4: "get ?scd ''dbType'' = Str ''druid'' \<or> get ?scd ''dbType'' = Str ''ksql''"
    and d5: "get ?d ''host'' = Str ''broker''" and d6: "''broker'' \<noteq> []"
    and d7: "get ?d ''port'' = Num 8082" and d8: "truthy (Num 8082)"
    and d9: "connParamValid sample_runtime (Num 8082) = Inr ()"
    and d10: "falsy (get ?scd ''error'')"
    by (simp_all add: get_def Object_keys_def truthy_def parse_dbParams_def connParamValid_def
        ge_number_def lt_number_def)
  have d11: "import_module sample_runtime
               (ToString (DriverDependencies sample_runtime (ToString (get ?scd ''dbType''))))
             = Inr ''@cubejs-backend/druid-driver''"
    by (simp add: get_def sample_runtime_def)
  have d12: "''http://broker:8082'' =
      (if startsWith ''broker'' ''http://'' \<or> startsWith ''broker'' ''https://'' then ''broker''
       else ''http://'' @ ''broker'') @ '':'' @ ToString (Num 8082)"
    by (simp add: startsWith_def show_int_def show_nat.simps digit_char_def)
  have k1: "truthy (get ?sck ''dbParams'')" and k2: "Object_keys (get ?sck ''dbParams'') \<noteq> []"
    and k3: "parse_dbParams sample_runtime (get ?sck ''dbParams'') = Inr ?k"
    and k4: "get ?sck ''dbType'' = Str ''druid'' \<or> get ?sck ''dbType'' = Str ''ksql''"
    and k5: "get ?k ''host'' = Str ''https://k.example''" and k6: "''https://k.example'' \<noteq> []"
    and k7: "get ?k ''port'' = Str ''8088''" and k8: "truthy (Str ''8088'')"
    and k10: "falsy (get ?sck ''error'')"
    by (simp_all add: get_def Object_keys_def truthy_def parse_dbParams_def)
  have k9: "connParamValid sample_runtime (Str ''8088'') = Inr ()"
    by (simp add: connParamValid_def ge_number_def lt_number_def sample_runtime_def
        sample_StringToNumber_def digit_value_def)
  have k11: "import_module sample_runtime
               (ToString (DriverDependencies sample_runtime (ToString (get ?sck ''dbType''))))
             = Inr ''@cubejs-backend/ksql-driver''"
    by (simp add: get_def sample_runtime_def)
  have k12: "''https://k.example:8088'' =
      (if startsWith ''https://k.example'' ''http://'' \<or> startsWith ''https://k.example'' ''https://''
       then ''https://k.example'' else ''http://'' @ ''https://k.example'')
      @ '':'' @ ToString (Str ''8088'')"
    by (simp add: startsWith_def)
  have d13: "[''default'', ''default''] =
      (if get ?scd ''dbType'' = Str ''druid'' then [''default'', ''default''] else [''default''])"
    and k13: "[''default''] =
      (if get ?sck ''dbType'' = Str ''druid'' then [''default'', ''default''] else [''default''])"
    by (simp_all add: get_def)
  have cd: "\<And>cfg. construct sample_runtime ''@cubejs-backend/druid-driver''
                    [''default'', ''default''] cfg = None"
    and ck: "\<And>cfg. construct sample_runtime ''@cubejs-backend/ksql-driver'' [''default''] cfg = None"
    by (simp_all add: sample_runtime_def)
  have d: "driverFactory sample_runtime ?scd
     = Inr (Driver ''@cubejs-backend/druid-driver'' [''default'', ''default'']
         (plain [(''host'', Str ''broker''), (''port'', Num 8082),
                 (''url'', Str ''http://broker:8082'')]))"
    using driverFactory_druid_ksql_url [OF d1 d2 d3 d4 d5 d6 d7 d8 d9 d10 d11 d12 d13]
    by (simp add: sd set_prop_def get_def new_driver_def cd)
  have k: "driverFactory sample_runtime ?sck
     = Inr (Driver ''@cubejs-backend/ksql-driver'' [''default'']
         (plain [(''host'', Str ''https://k.example''), (''port'', Str ''8088''),
                 (''url'', Str ''https://k.example:8088'')]))"
    using driverFactory_druid_ksql_url [OF k1 k2 k3 k4 k5 k6 k7 k8 k9 k10 k11 k12 k13]
    by (simp add: sk set_prop_def get_def new_driver_def ck)
  from d k show ?thesis by simp
qed

text \<open>
  The claim as first stated fails for the port 0, which the stripping removes before
  the url is composed: the url ends at the colon.
\<close>

theorem driverFactory_druid_ksql_url_counterexample:
  "driverFactory sample_runtime
     (Obj [(''dbType'', Str ''druid''),
           (''dbParams'', Obj [(''host'', Str ''broker''), (''port'', Num 0)])])
   = Inr (Driver ''@cubejs-backend/druid-driver'' [''default'', ''default'']
       (plain [(''host'', Str ''broker''), (''url'', Str ''http://broker:'')]))"
  by (simp add: driverFactory_def config_defs url_case_def makeUrl_def startsWith_def join_def
      loadDriver_def new_driver_def sample_runtime_def)

section \<open>Properties of the query filter\<close>


lemma elevated_role: "array_includes [Str ''owner'', Str ''admin''] role \<longleftrightarrow>
    role = Str ''owner'' \<or> role = Str ''admin''"
  by (auto simp: array_includes_def)




text \<open>
  The filter once the permissions are found: those of the context when it carries a
  config, those \<^verbatim>\<open>getPermissions\<close> returns for its user otherwise.
\<close>

lemma queryRewrite_resolved:
  assumes "\<not> nullish sc"
    and "(if truthy (get sc ''config'') then Inr sc
          else getPermissions hp (get sc ''userId'')) = Inr permissions"
    and "\<not> nullish permissions"
  shows "queryRewrite hp query sc =
     (if array_includes [Str ''owner'', Str ''admin''] (get permissions ''role'')
         \<or> falsy (get permissions ''config'')
      then Inr query
      else if falsy (get (get (get (get permissions ''config'') ''datasources'')
                       (ToString (get sc ''dataSourceId''))) ''cubes'')
      then Inl (Error ''No access to datasource!'')
      else
        (case getColumnsArray query of
           Inl e \<Rightarrow> Inl e
         | Inr queryNames \<Rightarrow>
             (case reduce_columns [] (Object_values
                     (get (get (get (get permissions ''config'') ''datasources'')
                        (ToString (get sc ''dataSourceId''))) ''cubes'')) of
                Inl e \<Rightarrow> Inl e
              | Inr accessNames \<Rightarrow>
                  (case find (\<lambda>cn. \<not> array_includes accessNames cn) queryNames of
                     Some cn \<Rightarrow> Inl (Error (''No access to '' @ ToString cn @ '' cube!''))
                   | None \<Rightarrow> Inr query))))"
  using assms unfolding queryRewrite_def Let_def by simp




text \<open>
  C3, as the code has it. The role and the config that decide are those of the
  permissions the filter resolves: the context itself when it carries a config, what
  \<^verbatim>\<open>getPermissions\<close> returns for the user of the context when it carries none. When that
  role is owner or admin, or those permissions hold no config, every query is returned
  unchanged.
\<close>

theorem queryRewrite_elevated_or_unconfigured:
  assumes "\<not> nullish sc"
    and "(if truthy (get sc ''config'') then Inr sc
          else getPermissions hp (get sc ''userId'')) = Inr permissions"
    and "\<not> nullish permissions"
    and "get permissions ''role'' = Str ''owner'' \<or> get permissions ''role'' = Str ''admin''
         \<or> falsy (get permissions ''config'')"
  shows "queryRewrite hp query sc = Inr query"
  using assms(4) by (auto simp: queryRewrite_resolved [OF assms(1-3)] elevated_role)

theorem queryRewrite_elevated_or_unconfigured_witness:
  "queryRewrite sample_helpers
     (Obj [(''dimensions'', Arr [Str ''c''])])
     (Obj [(''dataSourceId'', Str ''ds1''), (''userId'', Str ''u1''), (''role'', Str ''owner''),
           (''config'', sample_config)])
     = Inr (Obj [(''dimensions'', Arr [Str ''c''])])
   \<and> queryRewrite (sample_helpers\<lparr>getPermissions := \<lambda>userId. Inr (Obj [(''role'', Str ''member'')])\<rparr>)
     (Obj [(''dimensions'', Arr [Str ''c''])])
     (Obj [(''dataSourceId'', Str ''ds1''), (''userId'', Str ''u1'')])
     = Inr (Obj [(''dimensions'', Arr [Str ''c''])])"
proof -
  let ?owner = "Obj [(''dataSourceId'', Str ''ds1''), (''userId'', Str ''u1''),
                     (''role'', Str ''owner''), (''config'', sample_config)]"
  let ?bare = "Obj [(''dataSourceId'', Str ''ds1''), (''userId'', Str ''u1'')]"
  let ?hp = "sample_helpers\<lparr>getPermissions := \<lambda>userId. Inr (Obj [(''role'', Str ''member'')])\<rparr>"
  let ?q = "Obj [(''dimensions'', Arr [Str ''c''])]"
  have a1: "\<not> nullish ?owner"
    and a2: "(if truthy (get ?owner ''config'') then Inr ?owner
              else getPermissions sample_helpers (get ?owner ''userId'')) = Inr ?owner"
    and a4: "get ?owner ''role'' = Str ''owner'' \<or> get ?owner ''role'' = Str ''admin''
             \<or> falsy (get ?owner ''config'')"
    by (simp_all add: get_def truthy_def sample_config_def)
  have b1: "\<not> nullish ?bare"
    and b2: "(if truthy (get ?bare ''config'') then Inr ?bare
              else getPermissions ?hp (get ?bare ''userId'')) = Inr (Obj [(''role'', Str ''member'')])"
    and b3: "\<not> nullish (Obj [(''role'', Str ''member'')])"
    and b4: "get (Obj [(''role'', Str ''member'')]) ''role'' = Str ''owner''
             \<or> get (Obj [(''role'', Str ''member'')]) ''role'' = Str ''admin''
             \<or> falsy (get (Obj [(''role'', Str ''member'')]) ''config'')"
    by (simp_all add: get_def truthy_def)
  show ?thesis
    using queryRewrite_elevated_or_unconfigured [OF a1 a2 a1 a4, of ?q]
      queryRewrite_elevated_or_unconfigured [OF b1 b2 b3 b4, of ?q]
    by simp
qed

text \<open>
  The claim as first stated fails: a context that carries no config (that of the SQL
  interface, say) is filtered by the permissions of its user, and a member is refused a
  column outside the allow-list.
\<close>

theorem queryRewrite_elevated_or_unconfigured_counterexample:
  "get (Obj [(''dataSourceId'', Str ''ds1''), (''userId'', Str ''u1'')]) ''config'' = Undefined
   \<and> queryRewrite sample_helpers
        (Obj [(''dimensions'', Arr [Str ''c''])])
        (Obj [(''dataSourceId'', Str ''ds1''), (''userId'', Str ''u1'')])
      = Inl (Error ''No access to c cube!'')"
  by (simp add: queryRewrite_def get_def truthy_def sample_helpers_def sample_config_def
      array_includes_def getColumnsArray_def or_empty_def Object_values_def)

text \<open>
  C10. Permissions (those of the context when it carries a config, those of its user
  otherwise) with a config and a role other than owner and admin, whose config has no
  (truthy) \<^verbatim>\<open>cubes\<close> under the datasource of the context, are rejected with
  \<^verbatim>\<open>No access to datasource!\<close> for every query, one that names no column included.
\<close>

theorem queryRewrite_no_datasource:
  assumes "\<not> nullish sc"
    and "(if truthy (get sc ''config'') then Inr sc
          else getPermissions hp (get sc ''userId'')) = Inr permissions"
    and "\<not> nullish permissions"
    and "truthy (get permissions ''config'')"
    and "\<not> array_includes [Str ''owner'', Str ''admin''] (get permissions ''role'')"
    and "falsy (get (get (get (get permissions ''config'') ''datasources'')
                  (ToString (get sc ''dataSourceId''))) ''cubes'')"
  shows "queryRewrite hp query sc = Inl (Error ''No access to datasource!'')"
  using assms(4-6) by (simp add: queryRewrite_resolved [OF assms(1-3)] truthy_def)

theorem queryRewrite_no_datasource_witness:
  "queryRewrite sample_helpers (Obj [])
     (Obj [(''dataSourceId'', Str ''ds2''), (''userId'', Str ''u1''), (''role'', Str ''member''),
           (''config'', sample_config)])
   = Inl (Error ''No access to datasource!'')
   \<and> queryRewrite sample_helpers (Obj [])
     (Obj [(''dataSourceId'', Str ''ds2''), (''userId'', Str ''u1'')])
   = Inl (Error ''No access to datasource!'')"
proof -
  let ?sc = "Obj [(''dataSourceId'', Str ''ds2''), (''userId'', Str ''u1''),
                  (''role'', Str ''member''), (''config'', sample_config)]"
  let ?bare = "Obj [(''dataSourceId'', Str ''ds2''), (''userId'', Str ''u1'')]"
  let ?perms = "Obj [(''role'', Str ''member''), (''config'', sample_config)]"
  have h1: "\<not> nullish ?sc"
    and h2: "(if truthy (get ?sc ''config'') then Inr ?sc
              else getPermissions sample_helpers (get ?sc ''userId'')) = Inr ?sc"
    and h4: "truthy (get ?sc ''config'')"
    and h5: "\<not> array_includes [Str ''owner'', Str ''admin''] (get ?sc ''role'')"
    and h6: "falsy (get (get (get (get ?sc ''config'') ''datasources'')
                      (ToString (get ?sc ''dataSourceId''))) ''cubes'')"
    by (simp_all add: get_def truthy_def sample_config_def array_includes_def)
  have b1: "\<not> nullish ?bare"
    and b2: "(if truthy (get ?bare ''config'') then Inr ?bare
              else getPermissions sample_helpers (get ?bare ''userId'')) = Inr ?perms"
    and b3: "\<not> nullish ?perms"
    and b4: "truthy (get ?perms ''config'')"
    and b5: "\<not> array_includes [Str ''owner'', Str ''admin''] (get ?perms ''role'')"
    and b6: "falsy (get (get (get (get ?perms ''config'') ''datasources'')
                      (ToString (get ?bare ''dataSourceId''))) ''cubes'')"
    by (simp_all add: get_def truthy_def sample_config_def sample_helpers_def array_includes_def)
  show ?thesis
    using queryRewrite_no_datasource [OF h1 h2 h1 h4 h5 h6]
      queryRewrite_no_datasource [OF b1 b2 b3 b4 b5 b6]
    by simp
qed

section \<open>Properties of the auth gate\<close>

text \<open>
  C4. When the request has headers and the verification of its token throws (an error
  object, or any value but undefined and null, so that its \<^verbatim>\<open>message\<close> can be read),
  \<^verbatim>\<open>setupAuthInfo\<close> returns (null) without throwing, and the security context it leaves
  on the request is the object whose only field is \<^verbatim>\<open>error\<close>, holding the message of what
  was thrown.
\<close>

theorem setupAuthInfo_verification_failure:
  assumes "\<not> nullish (headers req)"
    and "jwt_verify hp (get (headers req) ''authorization'') (CUBEJS_SECRET hp) = Inl err"
    and "message_of err = Inr message"
  shows "setupAuthInfo hp req = Inr (req\<lparr>securityContext := Obj [(''error'', message)]\<rparr>, Null)"
  using assms by (simp add: setupAuthInfo_def pushError_def)

theorem setupAuthInfo_verification_failure_witness:
  "setupAuthInfo sample_helpers
     \<lparr>headers = Obj [(''authorization'', Str ''forged'')], securityContext = Undefined\<rparr>
   = Inr (\<lparr>headers = Obj [(''authorization'', Str ''forged'')],
           securityContext = Obj [(''error'', Str ''invalid signature'')]\<rparr>, Null)"
proof -
  let ?req = "\<lparr>headers = Obj [(''authorization'', Str ''forged'')], securityContext = Undefined\<rparr>"
  have h1: "\<not> nullish (headers ?req)"
    and h2: "jwt_verify sample_helpers (get (headers ?req) ''authorization'')
               (CUBEJS_SECRET sample_helpers)
             = Inl (ErrorObj ''JsonWebTokenError'' ''invalid signature'')"
    and h3: "message_of (ErrorObj ''JsonWebTokenError'' ''invalid signature'')
             = Inr (Str ''invalid signature'')"
    by (simp_all add: get_def sample_helpers_def)
  show ?thesis
    using setupAuthInfo_verification_failure [OF h1 h2 h3] by simp
qed

end
